theory Spec2Isabelle
  imports Complex_Main
begin

section \<open>Dense matrices as numpy has them\<close>

text \<open>
  The module \<^verbatim>\<open>krypy/deflation.py\<close> works on two-dimensional numpy arrays. An array
  carries its shape, also when one of its dimensions is zero (\<^verbatim>\<open>numpy.zeros((0, n))\<close>), so
  the model keeps the shape beside the entries. Entries are complex numbers in exact
  arithmetic; rounding is not modelled. Every numpy operation that raises on operands of
  the wrong shape returns \<open>Inl\<close> of the exception here.
\<close>

datatype error = ValueError | LinAlgError | IndexError

definition bindE :: "error + 'a \<Rightarrow> ('a \<Rightarrow> error + 'b) \<Rightarrow> error + 'b" where
  "bindE m f = (case m of Inl e \<Rightarrow> Inl e | Inr x \<Rightarrow> f x)"

datatype mat = Mat (nrows: nat) (ncols: nat) (ents: "complex list list")

definition mk :: "nat \<Rightarrow> nat \<Rightarrow> (nat \<Rightarrow> nat \<Rightarrow> complex) \<Rightarrow> mat" where
  "mk r c f = Mat r c (map (\<lambda>i. map (\<lambda>j. f i j) [0..<c]) [0..<r])"

definition entry :: "mat \<Rightarrow> nat \<Rightarrow> nat \<Rightarrow> complex" where
  "entry m i j = ents m ! i ! j"

definition wf_mat :: "mat \<Rightarrow> bool" where
  "wf_mat m \<longleftrightarrow> length (ents m) = nrows m \<and> list_all (\<lambda>r. length r = ncols m) (ents m)"

text \<open>\<^verbatim>\<open>numpy.zeros((r, c))\<close>, \<^verbatim>\<open>numpy.eye(r, c)\<close> and the literal \<^verbatim>\<open>[[x]]\<close>.\<close>

definition zeros :: "nat \<Rightarrow> nat \<Rightarrow> mat" where
  "zeros r c = mk r c (\<lambda>i j. 0)"

definition eye :: "nat \<Rightarrow> nat \<Rightarrow> mat" where
  "eye r c = mk r c (\<lambda>i j. if i = j then 1 else 0)"

definition scalar11 :: "complex \<Rightarrow> mat" where
  "scalar11 x = mk 1 1 (\<lambda>i j. x)"

text \<open>\<^verbatim>\<open>a.dot(b)\<close>: the inner dimensions must agree, otherwise numpy raises ValueError.\<close>

definition dot :: "mat \<Rightarrow> mat \<Rightarrow> error + mat" where
  "dot a b =
     (if ncols a = nrows b
      then Inr (mk (nrows a) (ncols b)
                  (\<lambda>i j. sum_list (map (\<lambda>k. entry a i k * entry b k j) [0..<ncols a])))
      else Inl ValueError)"

text \<open>\<^verbatim>\<open>a.T.conj()\<close>.\<close>

definition ctr :: "mat \<Rightarrow> mat" where
  "ctr a = mk (ncols a) (nrows a) (\<lambda>i j. cnj (entry a j i))"

text \<open>
  Elementwise \<^verbatim>\<open>a + b\<close> and \<^verbatim>\<open>a - b\<close> broadcast: two extents are compatible when
  they are equal or one of them is 1, and the extent 1 is stretched.
\<close>

definition bcast :: "nat \<Rightarrow> nat \<Rightarrow> nat option" where
  "bcast a b = (if a = b then Some a else if a = 1 then Some b else if b = 1 then Some a else None)"

definition elementwise :: "(complex \<Rightarrow> complex \<Rightarrow> complex) \<Rightarrow> mat \<Rightarrow> mat \<Rightarrow> error + mat" where
  "elementwise f a b =
     (case (bcast (nrows a) (nrows b), bcast (ncols a) (ncols b)) of
        (Some r, Some c) \<Rightarrow>
          Inr (mk r c (\<lambda>i j. f (entry a (if nrows a = 1 then 0 else i) (if ncols a = 1 then 0 else j))
                               (entry b (if nrows b = 1 then 0 else i) (if ncols b = 1 then 0 else j))))
      | _ \<Rightarrow> Inl ValueError)"

definition madd :: "mat \<Rightarrow> mat \<Rightarrow> error + mat" where
  "madd = elementwise (+)"

definition msub :: "mat \<Rightarrow> mat \<Rightarrow> error + mat" where
  "msub = elementwise (-)"

definition mneg :: "mat \<Rightarrow> mat" where
  "mneg a = mk (nrows a) (ncols a) (\<lambda>i j. - entry a i j)"

text \<open>
  Slices clip to the array: \<^verbatim>\<open>a[:n, :]\<close>, \<^verbatim>\<open>a[:, :n]\<close> and \<^verbatim>\<open>a[:n, :m]\<close>.
  Indexing with the list \<^verbatim>\<open>[-1]\<close> raises IndexError on an empty axis, and indexing the
  columns with an index array raises IndexError on an index out of range.
\<close>

definition take_rows :: "nat \<Rightarrow> mat \<Rightarrow> mat" where
  "take_rows n a = mk (min n (nrows a)) (ncols a) (entry a)"

definition take_cols :: "nat \<Rightarrow> mat \<Rightarrow> mat" where
  "take_cols n a = mk (nrows a) (min n (ncols a)) (entry a)"

definition take_block :: "nat \<Rightarrow> nat \<Rightarrow> mat \<Rightarrow> mat" where
  "take_block n m a = mk (min n (nrows a)) (min m (ncols a)) (entry a)"

definition last_row :: "mat \<Rightarrow> error + mat" where
  "last_row a = (if nrows a = 0 then Inl IndexError
                 else Inr (mk 1 (ncols a) (\<lambda>i j. entry a (nrows a - 1) j)))"

definition last_col :: "mat \<Rightarrow> error + mat" where
  "last_col a = (if ncols a = 0 then Inl IndexError
                 else Inr (mk (nrows a) 1 (\<lambda>i j. entry a i (ncols a - 1))))"

definition index_cols :: "mat \<Rightarrow> nat list \<Rightarrow> error + mat" where
  "index_cols a idx =
     (if list_all (\<lambda>j. j < ncols a) idx
      then Inr (mk (nrows a) (length idx) (\<lambda>i j. entry a i (idx ! j)))
      else Inl IndexError)"

text \<open>\<^verbatim>\<open>numpy.argsort\<close> of an integer array, and \<^verbatim>\<open>numpy.diag\<close> of a matrix.\<close>

definition argsort :: "nat list \<Rightarrow> nat list" where
  "argsort p = map snd (sort_key fst (zip p [0..<length p]))"

definition diag :: "mat \<Rightarrow> complex list" where
  "diag a = map (\<lambda>i. entry a i i) [0..<min (nrows a) (ncols a)]"

text \<open>
  Concatenation. \<^verbatim>\<open>numpy.concatenate\<close> wants every extent but the one it joins to
  agree exactly, also for blocks with no rows or no columns. \<^verbatim>\<open>numpy.bmat\<close> joins each
  row of blocks side by side and stacks the results; \<^verbatim>\<open>numpy.c_\<close> and \<^verbatim>\<open>numpy.r_\<close> are
  the two concatenations on two-dimensional operands.
\<close>

definition hcat :: "mat \<Rightarrow> mat \<Rightarrow> error + mat" where
  "hcat a b =
     (if nrows a = nrows b
      then Inr (mk (nrows a) (ncols a + ncols b)
                  (\<lambda>i j. if j < ncols a then entry a i j else entry b i (j - ncols a)))
      else Inl ValueError)"

definition vcat :: "mat \<Rightarrow> mat \<Rightarrow> error + mat" where
  "vcat a b =
     (if ncols a = ncols b
      then Inr (mk (nrows a + nrows b) (ncols a)
                  (\<lambda>i j. if i < nrows a then entry a i j else entry b (i - nrows a) j))
      else Inl ValueError)"

fun np_c :: "mat list \<Rightarrow> error + mat" where
  "np_c [] = Inl ValueError"
| "np_c [a] = Inr a"
| "np_c (a # b # bs) = bindE (hcat a b) (\<lambda>ab. np_c (ab # bs))"

fun np_r :: "mat list \<Rightarrow> error + mat" where
  "np_r [] = Inl ValueError"
| "np_r [a] = Inr a"
| "np_r (a # b # bs) = bindE (vcat a b) (\<lambda>ab. np_r (ab # bs))"

fun block_rows :: "mat list list \<Rightarrow> error + mat list" where
  "block_rows [] = Inr []"
| "block_rows (row # rest) =
     bindE (np_c row) (\<lambda>r. bindE (block_rows rest) (\<lambda>rs. Inr (r # rs)))"

definition bmat :: "mat list list \<Rightarrow> error + mat" where
  "bmat obj = bindE (block_rows obj) np_r"

section \<open>The library routines the module calls\<close>

text \<open>
  numpy, scipy and \<^verbatim>\<open>krypy.utils\<close> are not part of the module. Their routines are taken
  as parameters, each returning its result or the exception it raises:
  \<^verbatim>\<open>numpy.linalg.solve\<close> (LinAlgError on a singular or non-square coefficient matrix),
  \<^verbatim>\<open>numpy.linalg.norm(., 2)\<close>, \<^verbatim>\<open>scipy.linalg.qr(., mode='economic', pivoting=True)\<close>
  with its factors and its permutation, \<^verbatim>\<open>scipy.linalg.hessenberg(., calc_q=True)\<close>, and
  the Householder reflector \<^verbatim>\<open>utils.House\<close> with its method \<^verbatim>\<open>apply\<close>. The type \<open>'h\<close>
  is the reflector object.
\<close>

record 'h linalg =
  np_solve :: "mat \<Rightarrow> mat \<Rightarrow> error + mat"
  np_norm2 :: "mat \<Rightarrow> error + real"
  sp_qr :: "mat \<Rightarrow> error + (mat \<times> mat \<times> nat list)"
  sp_hessenberg :: "mat \<Rightarrow> error + (mat \<times> mat)"
  House :: "mat \<Rightarrow> error + 'h"
  House_apply :: "'h \<Rightarrow> mat \<Rightarrow> error + mat"

section \<open>Arnoldifyer\<close>

text \<open>
  The attributes that \<^verbatim>\<open>Arnoldifyer.__init__\<close> stores on \<^verbatim>\<open>self\<close>. The argument and
  attribute \<^verbatim>\<open>B_\<close> is written \<open>B\<close>.
\<close>

record arnoldifyer =
  af_n :: nat
  af_invariant :: bool
  af_d :: nat
  af_V :: mat
  af_U :: mat
  af_AU :: mat
  af_H :: mat
  af_B :: mat
  af_C :: mat
  af_E :: mat
  af_Pv_norm :: complex
  af_U_v :: mat
  af_L :: mat
  af_J :: mat
  af_M :: mat
  af_A_norm :: real
  af_N :: mat
  af_Z :: mat

text \<open>Line 84: \<^verbatim>\<open>EinvC = numpy.linalg.solve(E, C) if d > 0 else numpy.zeros((0, n))\<close>.\<close>

definition EinvC_of :: "'h linalg \<Rightarrow> nat \<Rightarrow> nat \<Rightarrow> mat \<Rightarrow> mat \<Rightarrow> error + mat" where
  "EinvC_of env n d E C = (if d > 0 then np_solve env E C else Inr (zeros 0 n))"

text \<open>Lines 85 to 92: the block matrices \<^verbatim>\<open>L\<close>, \<^verbatim>\<open>J\<close> and \<^verbatim>\<open>M\<close>.\<close>

definition L_of :: "nat \<Rightarrow> nat \<Rightarrow> mat \<Rightarrow> mat \<Rightarrow> error + mat" where
  "L_of n d H EinvC = bmat [[H, zeros (n + 1) d], [EinvC, eye d d]]"

definition J_of :: "nat \<Rightarrow> nat \<Rightarrow> mat \<Rightarrow> mat \<Rightarrow> error + mat" where
  "J_of n d B E = bmat [[eye n (n + 1), take_rows n B], [zeros d (n + 1), E]]"

definition M_of :: "nat \<Rightarrow> mat \<Rightarrow> mat \<Rightarrow> mat \<Rightarrow> mat \<Rightarrow> mat \<Rightarrow> error + mat" where
  "M_of n H B C E EinvC =
     bindE (dot (take_rows n B) EinvC) (\<lambda>BEC.
     bindE (madd (take_block n n H) BEC) (\<lambda>M11.
     bmat [[M11, take_rows n B], [C, E]]))"

text \<open>
  Line 102: \<^verbatim>\<open>l = (numpy.abs(numpy.diag(R)) > 1e-14*self.A_norm).sum()\<close>, the number of
  diagonal entries of \<^verbatim>\<open>R\<close> whose modulus is above the threshold.
\<close>

definition rank_of :: "real \<Rightarrow> mat \<Rightarrow> nat" where
  "rank_of A_norm R = length (filter (\<lambda>x. cmod x > (1 / 10 ^ 14) * A_norm) (diag R))"

text \<open>
  Lines 95 to 113: the basis \<^verbatim>\<open>Q1\<close> and the residual helper matrix \<^verbatim>\<open>N\<close>, by the
  pivoted QR decomposition of \<^verbatim>\<open>AU - U.dot(E) - V.dot(B_)\<close> when \<^verbatim>\<open>d > 0\<close> and
  trivially otherwise.
\<close>

definition unexplained_of :: "mat \<Rightarrow> mat \<Rightarrow> mat \<Rightarrow> mat \<Rightarrow> mat \<Rightarrow> error + mat" where
  "unexplained_of V U AU B E =
     bindE (dot U E) (\<lambda>UE.
     bindE (msub AU UE) (\<lambda>AU_UE.
     bindE (dot V B) (\<lambda>VB.
     msub AU_UE VB)))"

definition Q1_N_of ::
  "'h linalg \<Rightarrow> nat \<Rightarrow> nat \<Rightarrow> real \<Rightarrow> mat \<Rightarrow> mat \<Rightarrow> mat \<Rightarrow> mat \<Rightarrow> mat \<Rightarrow> error + (mat \<times> mat)" where
  "Q1_N_of env n d A_norm V U AU B E =
     (if d > 0 then
        bindE (unexplained_of V U AU B E) (\<lambda>X.
        bindE (sp_qr env X) (\<lambda>(Q, R, P).
        let P_inv = argsort P;
            l = rank_of A_norm R;
            Q1 = take_cols l Q;
            R12 = take_rows l R
        in bindE (last_row B) (\<lambda>b_last.
           bindE (index_cols R12 P_inv) (\<lambda>R12P.
           bindE (bmat [[scalar11 1, b_last], [zeros l 1, R12P]]) (\<lambda>N1.
           bindE (bmat [[zeros (d + 1) n, eye (d + 1) (d + 1)]]) (\<lambda>N2.
           bindE (dot N1 N2) (\<lambda>N. Inr (Q1, N))))))))
      else
        bindE (bmat [[zeros 1 n, eye 1 1]]) (\<lambda>N. Inr (zeros (nrows U) 0, N)))"

text \<open>
  \<^verbatim>\<open>Arnoldifyer.__init__\<close>, lines 53 to 116. \<open>Arnoldifyer_assemble\<close> is the part of the
  constructor after \<^verbatim>\<open>EinvC\<close> has been obtained (lines 85 to 116).
\<close>

definition Arnoldifyer_assemble ::
  "'h linalg \<Rightarrow> mat \<Rightarrow> mat \<Rightarrow> mat \<Rightarrow> mat \<Rightarrow> mat \<Rightarrow> mat \<Rightarrow> mat \<Rightarrow> complex \<Rightarrow> mat \<Rightarrow> mat
     \<Rightarrow> error + arnoldifyer" where
  "Arnoldifyer_assemble env V U AU H B C E Pv_norm U_v EinvC =
     (let n = ncols H;
          invariant = (nrows H = n);
          d = ncols U
      in bindE (L_of n d H EinvC) (\<lambda>L.
         bindE (J_of n d B E) (\<lambda>J.
         bindE (M_of n H B C E EinvC) (\<lambda>M.
         bindE (np_norm2 env M) (\<lambda>A_norm.
         bindE (Q1_N_of env n d A_norm V U AU B E) (\<lambda>(Q1, N).
         bindE (last_col V) (\<lambda>v_last.
         bindE (np_c [v_last, Q1]) (\<lambda>Z.
         Inr \<lparr>af_n = n, af_invariant = invariant, af_d = d, af_V = V, af_U = U,
              af_AU = AU, af_H = H, af_B = B, af_C = C, af_E = E,
              af_Pv_norm = Pv_norm, af_U_v = U_v, af_L = L, af_J = J, af_M = M,
              af_A_norm = A_norm, af_N = N, af_Z = Z\<rparr>))))))))"

definition Arnoldifyer_init ::
  "'h linalg \<Rightarrow> mat \<Rightarrow> mat \<Rightarrow> mat \<Rightarrow> mat \<Rightarrow> mat \<Rightarrow> mat \<Rightarrow> mat \<Rightarrow> complex \<Rightarrow> mat
     \<Rightarrow> error + arnoldifyer" where
  "Arnoldifyer_init env V U AU H B C E Pv_norm U_v =
     bindE (EinvC_of env (ncols H) (ncols U) E C)
       (Arnoldifyer_assemble env V U AU H B C E Pv_norm U_v)"

text \<open>
  \<^verbatim>\<open>Arnoldifyer.get\<close>, lines 118 to 151. It returns the pair \<^verbatim>\<open>(H, R)\<close>, or the
  quadruple \<^verbatim>\<open>(H, R, Vh, F)\<close> when \<^verbatim>\<open>full\<close> is set.
\<close>

datatype get_result = HR mat mat | HRVF mat mat mat mat

text \<open>Lines 124 to 126.\<close>

definition PtE_of :: "arnoldifyer \<Rightarrow> mat \<Rightarrow> error + mat" where
  "PtE_of self Wt = bindE (dot (af_M self) Wt) (\<lambda>MWt. dot (ctr Wt) MWt)"

definition Pt_of :: "'h linalg \<Rightarrow> arnoldifyer \<Rightarrow> mat \<Rightarrow> mat \<Rightarrow> error + mat" where
  "Pt_of env self Wt PtE =
     bindE (dot (ctr Wt) (af_J self)) (\<lambda>WtJ.
     bindE (np_solve env PtE WtJ) (\<lambda>S.
     bindE (dot Wt S) (\<lambda>WtS.
     bindE (dot (af_L self) WtS) (\<lambda>LWtS.
     msub (eye (af_n self + af_d self + 1) (af_n self + af_d self + 1)) LWtS))))"

text \<open>Lines 127 to 131.\<close>

definition qt_of :: "'h linalg \<Rightarrow> arnoldifyer \<Rightarrow> mat \<Rightarrow> error + mat" where
  "qt_of env self Pt =
     (if af_d self > 0 then
        bindE (np_solve env (af_E self) (af_U_v self)) (\<lambda>EinvUv.
        bindE (np_r [scalar11 (af_Pv_norm self), zeros (af_n self) 1, EinvUv]) (\<lambda>seed.
        dot Pt seed))
      else
        bindE (np_r [scalar11 (af_Pv_norm self), zeros (af_n self) 1]) (\<lambda>seed.
        dot Pt seed))"

text \<open>Lines 146 to 151.\<close>

definition get_return :: "arnoldifyer \<Rightarrow> bool \<Rightarrow> mat \<Rightarrow> mat \<Rightarrow> mat \<Rightarrow> error + get_result" where
  "get_return self full H R QT =
     (if full then
        bindE (np_c [take_cols (af_n self) (af_V self), af_U self]) (\<lambda>VU.
        bindE (dot VU QT) (\<lambda>Vh.
        bindE (dot R (ctr Vh)) (\<lambda>RVh.
        bindE (dot (af_Z self) RVh) (\<lambda>ZRVh.
        let F = mneg ZRVh
        in bindE (madd F (ctr F)) (\<lambda>F'. Inr (HRVF H R Vh F'))))))
      else Inr (HR H R))"

text \<open>
  Lines 135 to 141: the reflector of \<^verbatim>\<open>q\<close>, the matrix \<^verbatim>\<open>LQ\<close>, the Hessenberg
  decomposition and the transformation \<^verbatim>\<open>QT\<close>.
\<close>

definition Arnoldify :: "'h linalg \<Rightarrow> arnoldifyer \<Rightarrow> mat \<Rightarrow> mat \<Rightarrow> error + (mat \<times> mat)" where
  "Arnoldify env self Pt q =
     bindE (House env q) (\<lambda>Q.
     bindE (House_apply env Q (ctr (af_L self))) (\<lambda>QLH.
     let LQ = ctr QLH
     in bindE (House_apply env Q (af_J self)) (\<lambda>QJ.
        bindE (dot Pt LQ) (\<lambda>PtLQ.
        bindE (dot QJ PtLQ) (\<lambda>A.
        bindE (sp_hessenberg env A) (\<lambda>(H, T).
        bindE (House_apply env Q T) (\<lambda>QT. Inr (H, QT))))))))"

text \<open>Line 144: \<^verbatim>\<open>R = self.N.dot(Pt.dot(self.L.dot(QT)))\<close>.\<close>

definition R_of :: "arnoldifyer \<Rightarrow> mat \<Rightarrow> mat \<Rightarrow> error + mat" where
  "R_of self Pt QT =
     bindE (dot (af_L self) QT) (\<lambda>LQT.
     bindE (dot Pt LQT) (\<lambda>PtLQT.
     dot (af_N self) PtLQT))"

definition get :: "'h linalg \<Rightarrow> arnoldifyer \<Rightarrow> mat \<Rightarrow> bool \<Rightarrow> error + get_result" where
  "get env self Wt full =
     bindE (PtE_of self Wt) (\<lambda>PtE.
     bindE (Pt_of env self Wt PtE) (\<lambda>Pt.
     bindE (qt_of env self Pt) (\<lambda>qt.
     bindE (dot (af_J self) qt) (\<lambda>q.
     bindE (Arnoldify env self Pt q) (\<lambda>(H, QT).
     bindE (R_of self Pt QT) (\<lambda>R.
     get_return self full H R QT))))))"


section \<open>ObliqueProjection\<close>

text \<open>
  The attributes of an \<^verbatim>\<open>ObliqueProjection\<close>. \<^verbatim>\<open>A\<close>, \<^verbatim>\<open>U\<close> and \<^verbatim>\<open>AH_U\<close> are set in
  lines 21 to 26; \<^verbatim>\<open>ip_B\<close>, \<^verbatim>\<open>V\<close>, \<^verbatim>\<open>WR\<close>, \<^verbatim>\<open>Q\<close> and \<^verbatim>\<open>R\<close> are set by the constructor
  of the base class \<^verbatim>\<open>utils.Projection\<close>, which is not part of the module. A linear
  operator is the function that applies it; \<open>'b\<close> is the type of the inner product
  argument \<^verbatim>\<open>ip_B\<close>.
\<close>

type_synonym linop = "mat \<Rightarrow> error + mat"

record 'b oblique_projection =
  op_A :: linop
  op_U :: mat
  op_AH_U :: mat
  op_ip_B :: 'b
  op_V :: mat
  op_WR :: mat
  op_Q :: "mat option"
  op_R :: "mat option"






section \<open>What the library routines promise\<close>

text \<open>
  The shapes of the results of the library routines, as their documentation gives them:
  the solution of a system has the rows of the (square) coefficient matrix and the columns
  of the right-hand side; the economic pivoted QR decomposition of an \<open>r \<times> c\<close> matrix has
  factors of shapes \<open>r \<times> min r c\<close> and \<open>min r c \<times> c\<close> and a permutation of the \<open>c\<close>
  column indices; the Hessenberg decomposition of a matrix has two factors of its shape;
  applying a reflector keeps the shape of the operand.
\<close>

definition lib_shapes :: "'h linalg \<Rightarrow> bool" where
  "lib_shapes env \<longleftrightarrow>
     (\<forall>a b x. np_solve env a b = Inr x \<longrightarrow>
        nrows a = ncols a \<and> nrows b = nrows a \<and> nrows x = nrows a \<and> ncols x = ncols b) \<and>
     (\<forall>X Q R P. sp_qr env X = Inr (Q, R, P) \<longrightarrow>
        nrows Q = nrows X \<and> ncols Q = min (nrows X) (ncols X) \<and>
        nrows R = min (nrows X) (ncols X) \<and> ncols R = ncols X \<and>
        length P = ncols X \<and> set P = {..<ncols X}) \<and>
     (\<forall>A H T. sp_hessenberg env A = Inr (H, T) \<longrightarrow>
        nrows H = nrows A \<and> ncols H = ncols A \<and> nrows T = nrows A \<and> ncols T = ncols A) \<and>
     (\<forall>Q X Y. House_apply env Q X = Inr Y \<longrightarrow> nrows Y = nrows X \<and> ncols Y = ncols X)"



section \<open>The formulas of the specification\<close>






text \<open>
  The retained rank in the words of the specification: the number of diagonal entries of
  the factor \<open>R\<close> whose magnitude is strictly above \<open>10\<^sup>-\<^sup>1\<^sup>4\<close> times \<open>A_norm\<close>.
\<close>

definition spec_rank :: "real \<Rightarrow> mat \<Rightarrow> nat" where
  "spec_rank A_norm R =
     card {i. i < min (nrows R) (ncols R) \<and> cmod (entry R i i) > A_norm / 10 ^ 14}"


section \<open>A worked example\<close>

text \<open>
  The library routines on the small operands of the examples below, in exact arithmetic:
  \<^item> \<open>ex_solve\<close> solves systems of order 0 and 1, and raises LinAlgError when the
    coefficient matrix is not square or the coefficient of the system of order 1 is zero;
  \<^item> \<open>ex_norm2\<close> is the modulus of the entry of a \<open>1 \<times> 1\<close> matrix and, for a real symmetric
    \<open>2 \<times> 2\<close> matrix, the larger modulus of its two eigenvalues;
  \<^item> \<open>ex_qr\<close> decomposes a single column whose only non-zero entry is the last one;
  \<^item> \<open>ex_hessenberg\<close> returns a square matrix of order at most 2 with the identity, as
    scipy does;
  \<^item> \<open>ex_House\<close> is the reflector of a column that is a multiple of the first unit vector,
    which is the identity; the reflector object is its order.
  Every other operand is outside the example and is refused with ValueError.
\<close>

definition ex_solve :: "mat \<Rightarrow> mat \<Rightarrow> error + mat" where
  "ex_solve a b =
     (if nrows a \<noteq> ncols a then Inl LinAlgError
      else if nrows b \<noteq> nrows a then Inl ValueError
      else if nrows a = 0 then Inr (zeros 0 (ncols b))
      else if nrows a = 1 then
        (if entry a 0 0 = 0 then Inl LinAlgError
         else Inr (mk 1 (ncols b) (\<lambda>i j. entry b 0 j / entry a 0 0)))
      else Inl ValueError)"

definition ex_norm2 :: "mat \<Rightarrow> error + real" where
  "ex_norm2 m =
     (if nrows m = 1 \<and> ncols m = 1 then Inr (cmod (entry m 0 0))
      else if nrows m = 2 \<and> ncols m = 2 \<and> entry m 0 1 = entry m 1 0 \<and>
              list_all (\<lambda>(i, j). Im (entry m i j) = 0) [(0, 0), (0, 1), (1, 1)]
      then Inr (\<bar>Re (entry m 0 0) + Re (entry m 1 1)\<bar> / 2 +
                sqrt (((Re (entry m 0 0) - Re (entry m 1 1)) / 2)\<^sup>2 + (Re (entry m 0 1))\<^sup>2))
      else Inl ValueError)"

definition ex_qr :: "mat \<Rightarrow> error + (mat \<times> mat \<times> nat list)" where
  "ex_qr X =
     (if ncols X = 1 \<and> 0 < nrows X \<and> list_all (\<lambda>i. entry X i 0 = 0) [0..<nrows X - 1]
      then Inr (mk (nrows X) 1 (\<lambda>i j. if i = nrows X - 1 then 1 else 0),
                mk 1 1 (\<lambda>i j. entry X (nrows X - 1) 0), [0])
      else Inl ValueError)"

definition ex_hessenberg :: "mat \<Rightarrow> error + (mat \<times> mat)" where
  "ex_hessenberg A =
     (if nrows A = ncols A \<and> nrows A \<le> 2 then Inr (A, eye (nrows A) (nrows A))
      else Inl ValueError)"

definition ex_House :: "mat \<Rightarrow> error + nat" where
  "ex_House q =
     (if ncols q = 1 \<and> 0 < nrows q \<and> list_all (\<lambda>i. entry q i 0 = 0) [1..<nrows q]
      then Inr (nrows q) else Inl ValueError)"

definition ex_House_apply :: "nat \<Rightarrow> mat \<Rightarrow> error + mat" where
  "ex_House_apply k x = (if nrows x = k then Inr x else Inl ValueError)"

definition ex_lib :: "nat linalg" where
  "ex_lib = \<lparr>np_solve = ex_solve, np_norm2 = ex_norm2, sp_qr = ex_qr,
            sp_hessenberg = ex_hessenberg, House = ex_House, House_apply = ex_House_apply\<rparr>"

text \<open>
  Example data with \<open>N = 4\<close>, \<open>n = 1\<close> and \<open>d = 1\<close>: \<open>V = [e\<^sub>1, e\<^sub>2]\<close>, \<open>U = [e\<^sub>3]\<close>,
  \<open>AU = (2, 1, 3, 5)\<close>, \<open>H = (-4/3, 1)\<close>, \<open>B_ = (2, 1)\<close>, \<open>C = (2)\<close>, \<open>E = (3)\<close>,
  \<open>Pv_norm = 1\<close> and \<open>U_v = (3)\<close>. Then \<open>M = [[0, 2], [2, 3]]\<close> with 2-norm 4.
\<close>

definition ex_V :: mat where "ex_V = Mat 4 2 [[1, 0], [0, 1], [0, 0], [0, 0]]"
definition ex_U :: mat where "ex_U = Mat 4 1 [[0], [0], [1], [0]]"
definition ex_AU :: mat where "ex_AU = Mat 4 1 [[2], [1], [3], [5]]"
definition ex_H :: mat where "ex_H = Mat 2 1 [[- 4 / 3], [1]]"
definition ex_B :: mat where "ex_B = Mat 2 1 [[2], [1]]"
definition ex_C :: mat where "ex_C = Mat 1 1 [[2]]"
definition ex_E :: mat where "ex_E = Mat 1 1 [[3]]"
definition ex_U_v :: mat where "ex_U_v = Mat 1 1 [[3]]"

text \<open>
  Intermediate values of the constructor on the example data: the solution \<open>EinvC\<close>, the
  part \<open>X = AU - U\<cdot>E - V\<cdot>B_\<close> and the factors of its QR decomposition; and the builder
  that the constructor returns.
\<close>

definition ex_EinvC :: mat where "ex_EinvC = Mat 1 1 [[2 / 3]]"
definition ex_X :: mat where "ex_X = Mat 4 1 [[0], [0], [0], [5]]"
definition ex_Q :: mat where "ex_Q = Mat 4 1 [[0], [0], [0], [1]]"
definition ex_R :: mat where "ex_R = Mat 1 1 [[5]]"

definition ex_builder :: arnoldifyer where
  "ex_builder =
     \<lparr>af_n = 1, af_invariant = False, af_d = 1, af_V = ex_V, af_U = ex_U, af_AU = ex_AU,
      af_H = ex_H, af_B = ex_B, af_C = ex_C, af_E = ex_E, af_Pv_norm = 1, af_U_v = ex_U_v,
      af_L = Mat 3 2 [[- 4 / 3, 0], [1, 0], [2 / 3, 1]],
      af_J = Mat 2 3 [[1, 0, 2], [0, 0, 3]],
      af_M = Mat 2 2 [[0, 2], [2, 3]],
      af_A_norm = 4,
      af_N = Mat 2 3 [[0, 1, 1], [0, 0, 5]],
      af_Z = Mat 4 2 [[0, 0], [1, 0], [0, 0], [0, 1]]\<rparr>"



text \<open>
  Example data of the invariant case as the docstring of the constructor describes it,
  \<open>N = 3\<close>, \<open>n = 1\<close> and \<open>d = 0\<close>: \<open>V = [e\<^sub>1]\<close> of shape \<open>(N, n)\<close> and the square
  \<open>H = (2)\<close> of shape \<open>(n, n)\<close>, with \<open>B_\<close> of shape \<open>(n, d)\<close>.
\<close>

definition inv_V :: mat where "inv_V = Mat 3 1 [[1], [0], [0]]"
definition inv_H :: mat where "inv_H = Mat 1 1 [[2]]"


section \<open>Shapes of a builder and of the results\<close>

text \<open>
  The shapes of the attributes of a builder with Krylov dimension \<open>n\<close> and \<open>d\<close> deflation
  vectors: \<open>L\<close> is \<open>(n+d+1) \<times> (n+d)\<close>, \<open>J\<close> is \<open>(n+d) \<times> (n+d+1)\<close>, \<open>M\<close> is square of
  order \<open>n+d\<close>, \<open>N\<close> has \<open>n+d+1\<close> columns and as many rows as \<open>Z\<close> has columns.
\<close>

definition builder_shapes :: "arnoldifyer \<Rightarrow> bool" where
  "builder_shapes self \<longleftrightarrow>
     nrows (af_L self) = af_n self + af_d self + 1 \<and> ncols (af_L self) = af_n self + af_d self \<and>
     nrows (af_J self) = af_n self + af_d self \<and> ncols (af_J self) = af_n self + af_d self + 1 \<and>
     nrows (af_M self) = af_n self + af_d self \<and> ncols (af_M self) = af_n self + af_d self \<and>
     ncols (af_N self) = af_n self + af_d self + 1 \<and> nrows (af_N self) = ncols (af_Z self) \<and>
     nrows (af_Z self) = nrows (af_V self) \<and>
     nrows (af_E self) = af_d self \<and> ncols (af_E self) = af_d self \<and>
     ncols (af_U self) = af_d self \<and> nrows (af_H self) = af_n self + 1 \<and>
     ncols (af_H self) = af_n self"



section \<open>Example calls of \<^verbatim>\<open>get\<close>\<close>


section \<open>Basic facts\<close>

lemma bindE_Inl [simp]: "bindE (Inl e) f = Inl e"
  by (simp add: bindE_def)

lemma bindE_Inr [simp]: "bindE (Inr x) f = f x"
  by (simp add: bindE_def)

lemma bindE_Inr_right [simp]: "bindE m Inr = m"
  by (cases m) simp_all

lemma bindE_Inr_right' [simp]: "bindE m (\<lambda>x. Inr x) = m"
  by (cases m) simp_all

lemma bindE_eq_Inr: "bindE m f = Inr y \<longleftrightarrow> (\<exists>x. m = Inr x \<and> f x = Inr y)"
  by (cases m) simp_all

lemma nrows_mk [simp]: "nrows (mk r c f) = r"
  by (simp add: mk_def)

lemma ncols_mk [simp]: "ncols (mk r c f) = c"
  by (simp add: mk_def)

lemma entry_mk [simp]: "i < r \<Longrightarrow> j < c \<Longrightarrow> entry (mk r c f) i j = f i j"
  by (simp add: mk_def entry_def)

lemma mk_cong: "(\<And>i j. i < r \<Longrightarrow> j < c \<Longrightarrow> f i j = g i j) \<Longrightarrow> mk r c f = mk r c g"
  by (simp add: mk_def)

lemma shape_simps [simp]:
  "nrows (zeros r c) = r" "ncols (zeros r c) = c"
  "nrows (eye r c) = r" "ncols (eye r c) = c"
  "nrows (scalar11 x) = 1" "ncols (scalar11 x) = 1"
  "nrows (ctr a) = ncols a" "ncols (ctr a) = nrows a"
  "nrows (mneg a) = nrows a" "ncols (mneg a) = ncols a"
  "nrows (take_rows n a) = min n (nrows a)" "ncols (take_rows n a) = ncols a"
  "nrows (take_cols n a) = nrows a" "ncols (take_cols n a) = min n (ncols a)"
  "nrows (take_block n m a) = min n (nrows a)" "ncols (take_block n m a) = min m (ncols a)"
  by (simp_all add: zeros_def eye_def scalar11_def ctr_def mneg_def take_rows_def
        take_cols_def take_block_def)

lemma dot_shape:
  "dot a b = Inr c \<Longrightarrow> ncols a = nrows b \<and> nrows c = nrows a \<and> ncols c = ncols b"
  by (auto simp: dot_def split: if_splits)

lemma hcat_shape:
  "hcat a b = Inr c \<Longrightarrow> nrows a = nrows b \<and> nrows c = nrows a \<and> ncols c = ncols a + ncols b"
  by (auto simp: hcat_def split: if_splits)

lemma vcat_shape:
  "vcat a b = Inr c \<Longrightarrow> ncols a = ncols b \<and> ncols c = ncols a \<and> nrows c = nrows a + nrows b"
  by (auto simp: vcat_def split: if_splits)

lemma bmat22:
  "bmat [[a, b], [c, d]] = bindE (hcat a b) (\<lambda>ab. bindE (hcat c d) (\<lambda>cd. vcat ab cd))"
  by (cases "hcat a b"; cases "hcat c d") (simp_all add: bmat_def)

lemma bmat12: "bmat [[a, b]] = hcat a b"
  by (cases "hcat a b") (simp_all add: bmat_def)

lemma bmat22_shape:
  "bmat [[a, b], [c, d]] = Inr m \<Longrightarrow>
     nrows a = nrows b \<and> nrows c = nrows d \<and> ncols a + ncols b = ncols c + ncols d \<and>
     nrows m = nrows a + nrows c \<and> ncols m = ncols a + ncols b"
  by (auto simp: bmat22 bindE_eq_Inr dest!: hcat_shape vcat_shape)

lemma elementwise_shape:
  "elementwise f a b = Inr c \<Longrightarrow>
     bcast (nrows a) (nrows b) = Some (nrows c) \<and> bcast (ncols a) (ncols b) = Some (ncols c)"
  by (auto simp: elementwise_def split: option.splits)

lemma bcast_same [simp]: "bcast a a = Some a"
  by (simp add: bcast_def)

lemma upt_numeral:
  "[i..<numeral k] = (if i < numeral k then i # [Suc i..<numeral k] else [])"
  by (rule upt_rec)

lemmas mat_eval = mk_def entry_def zeros_def eye_def scalar11_def dot_def ctr_def bcast_def
  elementwise_def madd_def msub_def mneg_def take_rows_def take_cols_def take_block_def
  last_row_def last_col_def index_cols_def argsort_def diag_def hcat_def vcat_def bmat_def
  upt_numeral

section \<open>The invariant case\<close>

text \<open>
  The first block row of \<^verbatim>\<open>L\<close> joins \<^verbatim>\<open>H\<close> with \<^verbatim>\<open>numpy.zeros((n+1, d))\<close>. A square
  \<^verbatim>\<open>H\<close> has \<open>n\<close> rows, so the concatenation raises ValueError whatever \<open>d\<close> is, and the
  constructor never returns a builder for a square \<^verbatim>\<open>H\<close>: it raises that ValueError, or
  the exception of the linear solve before it.
\<close>

lemma L_of_square: "nrows H = ncols H \<Longrightarrow> L_of (ncols H) d H X = Inl ValueError"
  by (simp add: L_of_def bmat22 hcat_def)

lemma init_square:
  "nrows H = ncols H \<Longrightarrow> \<exists>e. Arnoldifyer_init env V U AU H B C E p u = Inl e"
  by (cases "EinvC_of env (ncols H) (ncols U) E C")
     (simp_all add: Arnoldifyer_init_def Arnoldifyer_assemble_def L_of_square)

text \<open>
  Claim C5. When \<^verbatim>\<open>H\<close> is square the constructor is to detect the invariant case and to
  succeed. It does not: on the invariant example, of the shapes that the docstring of the
  constructor admits, it raises ValueError, with every library.
\<close>

theorem invariant_case_raises:
  "Arnoldifyer_init env inv_V (zeros 3 0) (zeros 3 0) inv_H (zeros 1 0) (zeros 0 1)
     (zeros 0 0) 1 (zeros 0 1) = Inl ValueError"
  by (simp add: Arnoldifyer_init_def Arnoldifyer_assemble_def EinvC_of_def L_of_def bmat22
        hcat_def inv_H_def)

section \<open>Shapes\<close>

lemma L_of_shape: "L_of n d H X = Inr L \<Longrightarrow>
   nrows H = n + 1 \<and> nrows X = d \<and> ncols H + d = ncols X + d \<and> nrows L = n + 1 + d \<and> ncols L = ncols H + d"
  by (auto simp: L_of_def dest!: bmat22_shape)

lemma J_of_shape: "J_of n d B E = Inr J \<Longrightarrow>
   n \<le> nrows B \<and> nrows E = d \<and> ncols B = ncols E \<and> nrows J = n + d \<and> ncols J = n + 1 + ncols B"
  by (auto simp: J_of_def dest!: bmat22_shape)

lemma M_of_shape: "M_of n H B C E X = Inr M \<Longrightarrow> n \<le> nrows B \<Longrightarrow> n \<le> nrows H \<Longrightarrow> n = ncols H \<Longrightarrow> ncols X = n \<Longrightarrow>
   ncols B = nrows X \<and> nrows C = nrows E \<and> nrows M = n + nrows C \<and> ncols M = ncols C + ncols E
   \<and> ncols C + ncols E = n + ncols B"
  by (auto simp: M_of_def bindE_eq_Inr madd_def dest!: bmat22_shape dot_shape elementwise_shape)

lemma rank_of_le: "rank_of A R \<le> min (nrows R) (ncols R)"
  unfolding rank_of_def diag_def
  by (rule order_trans [OF length_filter_le]) simp

lemma length_argsort [simp]: "length (argsort p) = length p"
  by (simp add: argsort_def)

lemma index_cols_shape: "index_cols a idx = Inr c \<Longrightarrow> nrows c = nrows a \<and> ncols c = length idx"
  by (auto simp: index_cols_def split: if_splits)

lemma last_row_shape: "last_row a = Inr c \<Longrightarrow> 0 < nrows a \<and> nrows c = 1 \<and> ncols c = ncols a"
  by (auto simp: last_row_def split: if_splits)

lemma last_col_shape: "last_col a = Inr c \<Longrightarrow> 0 < ncols a \<and> ncols c = 1 \<and> nrows c = nrows a"
  by (auto simp: last_col_def split: if_splits)

lemma lib_shapes_solve: "lib_shapes env \<Longrightarrow> np_solve env a b = Inr x \<Longrightarrow>
   nrows a = ncols a \<and> nrows b = nrows a \<and> nrows x = nrows a \<and> ncols x = ncols b"
  unfolding lib_shapes_def by blast

lemma lib_shapes_qr: "lib_shapes env \<Longrightarrow> sp_qr env X = Inr (Q, R, P) \<Longrightarrow>
   nrows Q = nrows X \<and> ncols Q = min (nrows X) (ncols X) \<and>
   nrows R = min (nrows X) (ncols X) \<and> ncols R = ncols X \<and> length P = ncols X"
  unfolding lib_shapes_def by blast



lemma Q1_N_of_pos:
  assumes lib: "lib_shapes env" and d: "0 < d"
    and ok: "Q1_N_of env n d A V U AU B E = Inr (Q1, N)"
  shows "\<exists>X Q R P. unexplained_of V U AU B E = Inr X \<and> sp_qr env X = Inr (Q, R, P) \<and>
           Q1 = take_cols (rank_of A R) Q \<and> nrows Q1 = nrows X \<and> ncols Q1 = rank_of A R \<and>
           nrows N = 1 + rank_of A R \<and> ncols N = n + d + 1 \<and> ncols B = d \<and> ncols X = d"
proof -
  from ok d obtain X Q R P b_last R12P N1 N2 where
    X: "unexplained_of V U AU B E = Inr X" and qr: "sp_qr env X = Inr (Q, R, P)"
    and bl: "last_row B = Inr b_last"
    and ic: "index_cols (take_rows (rank_of A R) R) (argsort P) = Inr R12P"
    and N1: "bmat [[scalar11 1, b_last], [zeros (rank_of A R) 1, R12P]] = Inr N1"
    and N2: "bmat [[zeros (d + 1) n, eye (d + 1) (d + 1)]] = Inr N2"
    and N: "dot N1 N2 = Inr N" and Q1: "Q1 = take_cols (rank_of A R) Q"
    by (auto simp: Q1_N_of_def bindE_eq_Inr Let_def split: prod.splits)
  from lib_shapes_qr [OF lib qr] have s: "nrows Q = nrows X" "ncols Q = min (nrows X) (ncols X)"
    "nrows R = min (nrows X) (ncols X)" "ncols R = ncols X" "length P = ncols X" by simp_all
  have l: "rank_of A R \<le> min (nrows X) (ncols X)" using rank_of_le [of A R] s by simp
  from last_row_shape [OF bl] have b: "nrows b_last = 1" "ncols b_last = ncols B" by simp_all
  from index_cols_shape [OF ic] have r: "nrows R12P = rank_of A R" "ncols R12P = ncols X"
    using l s by simp_all
  from bmat22_shape [OF N1] b r have n1: "nrows N1 = 1 + rank_of A R" "ncols N1 = 1 + ncols B"
    "ncols B = ncols X" by simp_all
  from N2 have n2: "nrows N2 = d + 1" "ncols N2 = n + (d + 1)"
    by (auto simp: bmat12 dest!: hcat_shape)
  from dot_shape [OF N] n1 n2 have "nrows N = 1 + rank_of A R" "ncols N = n + d + 1" "ncols B = d"
    by simp_all
  with X qr Q1 s l n1 show ?thesis by auto
qed

lemma Q1_N_of_zero:
  "Q1_N_of env n 0 A V U AU B E = Inr (zeros (nrows U) 0, mk 1 (n + 1) (\<lambda>i j. if j = n then 1 else 0))"
  by (auto simp: Q1_N_of_def bmat12 hcat_def zeros_def eye_def intro!: mk_cong)

lemma EinvC_of_shape:
  assumes "lib_shapes env" "EinvC_of env n d E C = Inr X"
  shows "(0 < d \<longrightarrow> nrows E = ncols E \<and> nrows C = nrows E \<and> nrows X = nrows E \<and> ncols X = ncols C)
       \<and> (d = 0 \<longrightarrow> nrows X = 0 \<and> ncols X = n)"
  using assms by (auto simp: EinvC_of_def split: if_splits dest: lib_shapes_solve)

lemma init_steps:
  assumes "Arnoldifyer_init env V U AU H B C E p u = Inr self"
  shows "\<exists>EinvC Q1 v_last.
      EinvC_of env (ncols H) (ncols U) E C = Inr EinvC \<and>
      L_of (ncols H) (ncols U) H EinvC = Inr (af_L self) \<and>
      J_of (ncols H) (ncols U) B E = Inr (af_J self) \<and>
      M_of (ncols H) H B C E EinvC = Inr (af_M self) \<and>
      np_norm2 env (af_M self) = Inr (af_A_norm self) \<and>
      Q1_N_of env (ncols H) (ncols U) (af_A_norm self) V U AU B E = Inr (Q1, af_N self) \<and>
      last_col V = Inr v_last \<and> hcat v_last Q1 = Inr (af_Z self)"
  using assms
  by (auto simp: Arnoldifyer_init_def Arnoldifyer_assemble_def bindE_eq_Inr Let_def)

lemma init_fields:
  assumes "Arnoldifyer_init env V U AU H B C E p u = Inr self"
  shows "af_n self = ncols H" "af_d self = ncols U" "af_V self = V" "af_U self = U"
    "af_AU self = AU" "af_H self = H" "af_B self = B" "af_C self = C" "af_E self = E"
    "af_Pv_norm self = p" "af_U_v self = u" "af_invariant self = (nrows H = ncols H)"
  using assms
  by (auto simp: Arnoldifyer_init_def Arnoldifyer_assemble_def bindE_eq_Inr Let_def)

lemma init_shapes:
  assumes lib: "lib_shapes env"
    and ok: "Arnoldifyer_init env V U AU H B C E p u = Inr self"
  shows "builder_shapes self"
proof -
  let ?n = "ncols H" and ?d = "ncols U"
  from init_steps [OF ok] obtain X Q1 v_last where
    X: "EinvC_of env ?n ?d E C = Inr X" and L: "L_of ?n ?d H X = Inr (af_L self)"
    and J: "J_of ?n ?d B E = Inr (af_J self)" and M: "M_of ?n H B C E X = Inr (af_M self)"
    and QN: "Q1_N_of env ?n ?d (af_A_norm self) V U AU B E = Inr (Q1, af_N self)"
    and v: "last_col V = Inr v_last" and Z: "hcat v_last Q1 = Inr (af_Z self)"
    by blast
  note f = init_fields [OF ok]
  from L_of_shape [OF L] have l: "nrows H = ?n + 1" "nrows X = ?d" "ncols X = ?n"
    "nrows (af_L self) = ?n + 1 + ?d" "ncols (af_L self) = ?n + ?d" by simp_all
  from J_of_shape [OF J] have j: "?n \<le> nrows B" "nrows E = ?d" "ncols B = ncols E"
    "nrows (af_J self) = ?n + ?d" "ncols (af_J self) = ?n + 1 + ncols B" by simp_all
  from M_of_shape [OF M] j l have m: "ncols B = ?d" "nrows C = ?d"
    "nrows (af_M self) = ?n + ?d" "ncols (af_M self) = ?n + ?d" by simp_all
  have qn: "nrows (af_N self) = 1 + ncols Q1 \<and> ncols (af_N self) = ?n + ?d + 1"
  proof (cases "?d = 0")
    case True
    with QN have "Inr (Q1, af_N self) =
        (Inr (zeros (nrows U) 0, mk 1 (?n + 1) (\<lambda>i j. if j = ?n then 1 else 0)) :: error + mat \<times> mat)"
      by (simp add: Q1_N_of_zero)
    then have "Q1 = zeros (nrows U) 0" "af_N self = mk 1 (?n + 1) (\<lambda>i j. if j = ?n then 1 else 0)"
      by simp_all
    with True show ?thesis by simp
  next
    case False
    then have "0 < ?d" by simp
    from Q1_N_of_pos [OF lib this QN] show ?thesis by auto
  qed
  from last_col_shape [OF v] hcat_shape [OF Z]
  have z: "ncols (af_Z self) = 1 + ncols Q1" "nrows (af_Z self) = nrows V" by simp_all
  show ?thesis
    unfolding builder_shapes_def using f l j m qn z by simp
qed





lemma qt_of_shape:
  assumes lib: "lib_shapes env" and sh: "builder_shapes self"
    and ok: "qt_of env self Pt = Inr qt"
  shows "nrows qt = nrows Pt \<and> ncols qt = 1 \<and> ncols Pt = af_n self + af_d self + 1"
proof (cases "0 < af_d self")
  case True
  with ok obtain x seed where a: "np_solve env (af_E self) (af_U_v self) = Inr x"
    and b: "np_r [scalar11 (af_Pv_norm self), zeros (af_n self) 1, x] = Inr seed"
    and c: "dot Pt seed = Inr qt"
    by (auto simp: qt_of_def bindE_eq_Inr)
  from b have "nrows seed = 1 + af_n self + nrows x" "ncols seed = 1"
    by (auto simp: bindE_eq_Inr dest!: vcat_shape)
  with lib_shapes_solve [OF lib a] dot_shape [OF c] sh show ?thesis
    by (simp add: builder_shapes_def)
next
  case False
  with ok obtain seed where b: "np_r [scalar11 (af_Pv_norm self), zeros (af_n self) 1] = Inr seed"
    and c: "dot Pt seed = Inr qt"
    by (auto simp: qt_of_def bindE_eq_Inr)
  from b have "nrows seed = 1 + af_n self" "ncols seed = 1"
    by (auto simp: bindE_eq_Inr dest!: vcat_shape)
  with dot_shape [OF c] False show ?thesis by simp
qed




section \<open>The worked example, evaluated\<close>

lemmas ex_eval = ex_solve_def ex_norm2_def ex_qr_def ex_hessenberg_def ex_House_def
  ex_House_apply_def ex_lib_def ex_V_def ex_U_def ex_AU_def ex_H_def ex_B_def ex_C_def
  ex_E_def ex_U_v_def ex_builder_def ex_EinvC_def ex_X_def ex_Q_def ex_R_def

lemma ex_dims:
  "ncols ex_H = 1" "nrows ex_H = 2" "ncols ex_U = 1" "nrows ex_U = 4"
  by (simp_all add: ex_H_def ex_U_def)

lemma ex_unexplained: "unexplained_of ex_V ex_U ex_AU ex_B ex_E = Inr ex_X"
  by (simp add: unexplained_of_def mat_eval ex_eval)

lemma ex_EinvC_of: "EinvC_of ex_lib (ncols ex_H) (ncols ex_U) ex_E ex_C = Inr ex_EinvC"
  by (simp add: EinvC_of_def mat_eval ex_eval)

lemma ex_L_of: "L_of (ncols ex_H) (ncols ex_U) ex_H ex_EinvC = Inr (af_L ex_builder)"
  by (simp add: L_of_def mat_eval ex_eval)

lemma ex_J_of: "J_of (ncols ex_H) (ncols ex_U) ex_B ex_E = Inr (af_J ex_builder)"
  by (simp add: J_of_def mat_eval ex_eval)

lemma ex_M_of: "M_of (ncols ex_H) ex_H ex_B ex_C ex_E ex_EinvC = Inr (af_M ex_builder)"
  by (simp add: M_of_def mat_eval ex_eval)

lemma sqrt_25_4: "sqrt (25 / 4) = 5 / 2"
  using real_sqrt_abs [of "5 / 2"] by (simp add: power2_eq_square)

lemma ex_A_norm: "np_norm2 ex_lib (af_M ex_builder) = Inr (af_A_norm ex_builder)"
  by (simp add: mat_eval ex_eval power2_eq_square sqrt_25_4)

lemma ex_qr_X: "sp_qr ex_lib ex_X = Inr (ex_Q, ex_R, [0])"
  by (simp add: mat_eval ex_eval)

lemma ex_rank: "rank_of (af_A_norm ex_builder) ex_R = 1"
  by (simp add: rank_of_def mat_eval ex_eval)

lemma ex_Q1_N: "Q1_N_of ex_lib (ncols ex_H) (ncols ex_U) (af_A_norm ex_builder) ex_V ex_U ex_AU ex_B ex_E
   = Inr (ex_Q, af_N ex_builder)"
  unfolding Q1_N_of_def ex_unexplained ex_qr_X bindE_Inr Let_def ex_rank prod.case
  by (simp add: mat_eval ex_eval)

lemma ex_Z: "bindE (last_col ex_V) (\<lambda>v_last. np_c [v_last, ex_Q]) = Inr (af_Z ex_builder)"
  by (simp add: mat_eval ex_eval)

lemma ex_init: "Arnoldifyer_init ex_lib ex_V ex_U ex_AU ex_H ex_B ex_C ex_E 1 ex_U_v = Inr ex_builder"
  unfolding Arnoldifyer_init_def ex_EinvC_of bindE_Inr Arnoldifyer_assemble_def Let_def ex_L_of ex_J_of ex_M_of ex_A_norm ex_Q1_N prod.case
  using ex_Z by (auto simp: bindE_eq_Inr ex_builder_def ex_dims)















section \<open>The residual directions\<close>

text \<open>The count of line 102 is the number of diagonal entries above the threshold.\<close>

lemma rank_of_spec: "rank_of A R = spec_rank A R"
proof -
  let ?m = "min (nrows R) (ncols R)"
  let ?p = "\<lambda>x. cmod x > (1 / 10 ^ 14) * A"
  have "rank_of A R = card {i. i < length (diag R) \<and> ?p (diag R ! i)}"
    unfolding rank_of_def by (rule length_filter_conv_card)
  also have "{i. i < length (diag R) \<and> ?p (diag R ! i)} = {i. i < ?m \<and> ?p (entry R i i)}"
    by (auto simp: diag_def)
  finally show ?thesis by (simp add: spec_rank_def)
qed

lemma init_residual:
  assumes ok: "Arnoldifyer_init env V U AU H B C E p u = Inr self" and d: "0 < ncols U"
  shows "\<exists>X Q R P v_last.
      unexplained_of V U AU B E = Inr X \<and> sp_qr env X = Inr (Q, R, P) \<and>
      np_norm2 env (af_M self) = Inr (af_A_norm self) \<and>
      last_col V = Inr v_last \<and>
      hcat v_last (take_cols (rank_of (af_A_norm self) R) Q) = Inr (af_Z self)"
proof -
  from init_steps [OF ok] obtain Q1 v_last where
    n: "np_norm2 env (af_M self) = Inr (af_A_norm self)"
    and QN: "Q1_N_of env (ncols H) (ncols U) (af_A_norm self) V U AU B E = Inr (Q1, af_N self)"
    and v: "last_col V = Inr v_last" and Z: "hcat v_last Q1 = Inr (af_Z self)"
    by blast
  from QN d obtain X Q R P where "unexplained_of V U AU B E = Inr X" "sp_qr env X = Inr (Q, R, P)"
    "Q1 = take_cols (rank_of (af_A_norm self) R) Q"
    by (auto simp: Q1_N_of_def bindE_eq_Inr Let_def split: prod.splits)
  with n v Z show ?thesis by blast
qed

text \<open>
  Claim C4. A builder constructed with \<open>d > 0\<close> has its residual directions from the
  pivoted QR decomposition \<open>(Q, R, P)\<close> of \<open>X = AU - U\<cdot>E - V\<cdot>B_\<close>: with \<open>A_norm\<close> the
  2-norm of the assembled block matrix \<open>M\<close> and \<open>l\<close> the number of diagonal entries of \<open>R\<close>
  whose magnitude is strictly above \<open>10\<^sup>-\<^sup>1\<^sup>4\<cdot>A_norm\<close> (the count that the code computes
  is that number), the residual basis \<open>Z\<close> is the last column of \<open>V\<close> followed by
  \<open>Q1\<close>, the first \<open>l\<close> columns of \<open>Q\<close>.
\<close>

theorem residual_directions_by_pivoted_QR:
  assumes "Arnoldifyer_init env V U AU H B C E p u = Inr self" and "0 < ncols U"
  shows "\<exists>X Q R P v_last.
      unexplained_of V U AU B E = Inr X \<and> sp_qr env X = Inr (Q, R, P) \<and>
      np_norm2 env (af_M self) = Inr (af_A_norm self) \<and>
      rank_of (af_A_norm self) R = spec_rank (af_A_norm self) R \<and>
      last_col V = Inr v_last \<and>
      hcat v_last (take_cols (spec_rank (af_A_norm self) R) Q) = Inr (af_Z self)"
  using init_residual [OF assms] by (simp add: rank_of_spec)

text \<open>The example builder is such a construction, with \<open>d = 1\<close>.\<close>

theorem residual_directions_by_pivoted_QR_witness:
  "Arnoldifyer_init ex_lib ex_V ex_U ex_AU ex_H ex_B ex_C ex_E 1 ex_U_v = Inr ex_builder \<and>
   0 < ncols ex_U \<and>
   (\<exists>X Q R P v_last.
      unexplained_of ex_V ex_U ex_AU ex_B ex_E = Inr X \<and> sp_qr ex_lib X = Inr (Q, R, P) \<and>
      np_norm2 ex_lib (af_M ex_builder) = Inr (af_A_norm ex_builder) \<and>
      rank_of (af_A_norm ex_builder) R = spec_rank (af_A_norm ex_builder) R \<and>
      last_col ex_V = Inr v_last \<and>
      hcat v_last (take_cols (spec_rank (af_A_norm ex_builder) R) Q) = Inr (af_Z ex_builder))"
proof -
  have d: "0 < ncols ex_U" by (simp add: ex_dims)
  from residual_directions_by_pivoted_QR [OF ex_init d] ex_init d show ?thesis by blast
qed

section \<open>The shapes of what \<^verbatim>\<open>get\<close> returns\<close>



text \<open>
  A reduction subspace with any other number of rows is refused at the first product,
  \<^verbatim>\<open>self.M.dot(Wt)\<close>.
\<close>

lemma get_rejects_other_rows:
  assumes lib: "lib_shapes env"
    and ok: "Arnoldifyer_init env V U AU H B C E p u = Inr self"
    and r: "nrows Wt \<noteq> ncols H + ncols U"
  shows "get env self Wt full = Inl ValueError"
proof -
  from init_shapes [OF lib ok] init_fields [OF ok] r
  have "ncols (af_M self) \<noteq> nrows Wt" by (simp add: builder_shapes_def)
  then show ?thesis by (simp add: get_def PtE_of_def dot_def)
qed


section \<open>The linear solve of the constructor\<close>






section \<open>A singular compressed operator\<close>

text \<open>
  Only the library routines can raise LinAlgError: the operations of the module itself
  raise ValueError or IndexError.
\<close>

lemma bindE_eq_Inl:
  "bindE m f = Inl e \<longleftrightarrow> m = Inl e \<or> (\<exists>x. m = Inr x \<and> f x = Inl e)"
  by (cases m) auto

lemma no_LinAlgError [simp]:
  "dot a b \<noteq> Inl LinAlgError" "elementwise g a b \<noteq> Inl LinAlgError"
  "madd a b \<noteq> Inl LinAlgError" "msub a b \<noteq> Inl LinAlgError"
  "hcat a b \<noteq> Inl LinAlgError" "vcat a b \<noteq> Inl LinAlgError"
  by (auto simp: dot_def elementwise_def madd_def msub_def hcat_def vcat_def
      split: option.splits)

lemma np_c_no_LinAlgError [simp]: "np_c ms \<noteq> Inl LinAlgError"
  by (induction ms rule: np_c.induct) (auto simp: bindE_eq_Inl)

lemma np_r_no_LinAlgError [simp]: "np_r ms \<noteq> Inl LinAlgError"
  by (induction ms rule: np_r.induct) (auto simp: bindE_eq_Inl)

lemma get_return_no_LinAlgError [simp]: "get_return self full Hh R QT \<noteq> Inl LinAlgError"
  by (auto simp: get_return_def bindE_eq_Inl Let_def)

lemma R_of_no_LinAlgError [simp]: "R_of self Pt QT \<noteq> Inl LinAlgError"
  by (auto simp: R_of_def bindE_eq_Inl)

lemma PtE_of_no_LinAlgError [simp]: "PtE_of self Wt \<noteq> Inl LinAlgError"
  by (auto simp: PtE_of_def bindE_eq_Inl)







section \<open>No operation changes the state\<close>


section \<open>No deflation vectors\<close>










section \<open>The formulas of \<^verbatim>\<open>get\<close>\<close>

text \<open>
  The matrix product is associative, also where it fails: both nestings of a product of
  three matrices raise ValueError on the same operands.
\<close>

lemma sum_list_upt_cong:
  "(\<And>k. k < n \<Longrightarrow> f k = g k) \<Longrightarrow> sum_list (map f [0..<n]) = sum_list (map g [0..<n])"
  by (rule arg_cong [where f = sum_list]) simp











end
